theory Spec2Isabelle
  imports Main
begin

section \<open>Go values: returned errors and run-time panics\<close>

text \<open>
  A Go function either returns (possibly with a non-nil \<open>error\<close> among its results) or
  panics. The two are kept apart: a returned error is an \<open>error option\<close> beside the
  other results, a panic is the outcome \<open>Panics\<close>.
\<close>

datatype panic = SliceBoundsOutOfRange | IndexOutOfRange | InterfaceConversion

datatype 'a outcome = Returns 'a | Panics panic

text \<open>
  The error values the three source files build or pass on. \<open>New msg\<close> is
  \<open>perrors.New(msg)\<close>, \<open>WithStack e\<close> is \<open>perrors.WithStack(e)\<close>. \<open>ErrNoNode\<close> and
  \<open>ErrNodeExists\<close> come from the ZooKeeper client, \<open>CorruptInputError\<close> from
  \<open>encoding/base64\<close>, \<open>TransportError\<close> from the exchange layer; \<open>ErrDestroyedInvoker\<close>,
  \<open>ErrClientClosed\<close> and \<open>ErrNoReply\<close> are the variables of package \<open>protocol\<close> that
  \<open>DubboInvoker.Invoke\<close> stores in its result.
\<close>

datatype error =
    New string
  | WithStack error
  | ErrNoNode
  | ErrNodeExists
  | CorruptInputError
  | TransportError nat
  | ErrDestroyedInvoker
  | ErrClientClosed
  | ErrNoReply

text \<open>
  The slice expression \<open>s[lo:hi]\<close> on a string: Go panics unless
  \<open>0 \<le> lo \<le> hi \<le> len(s)\<close>.
\<close>

definition slice :: "string \<Rightarrow> int \<Rightarrow> int \<Rightarrow> string outcome" where
  "slice s lo hi =
     (if 0 \<le> lo \<and> lo \<le> hi \<and> hi \<le> int (length s)
      then Returns (take (nat (hi - lo)) (drop (nat lo) s))
      else Panics SliceBoundsOutOfRange)"

text \<open>
  \<open>strings.LastIndex(s, sep)\<close> for a separator of one byte, the only way the source
  calls it: the index of the last occurrence of the byte, or \<open>-1\<close>.
\<close>

fun LastIndex :: "string \<Rightarrow> char \<Rightarrow> int" where
  "LastIndex [] sep = - 1"
| "LastIndex (x # xs) sep =
     (let r = LastIndex xs sep
      in if 0 \<le> r then r + 1 else if x = sep then 0 else - 1)"

section \<open>Package \<open>encoding/base64\<close>: the standard encoding\<close>

text \<open>
  \<open>base64.StdEncoding\<close>: the alphabet of RFC 4648 with \<open>=\<close> padding. A string is its
  list of bytes; \<open>of_char\<close> reads a byte as a number below 256.
\<close>

definition encodeStd :: string where
  "encodeStd = ''ABCDEFGHIJKLMNOPQRSTUVWXYZabcdefghijklmnopqrstuvwxyz0123456789+/''"

definition enc :: "nat \<Rightarrow> char" where
  "enc i = encodeStd ! (i mod 64)"

fun EncodeToString :: "string \<Rightarrow> string" where
  "EncodeToString [] = []"
| "EncodeToString [a] =
     (let x = (of_char a :: nat)
      in [enc (x div 4), enc ((x mod 4) * 16), CHR ''='', CHR ''=''])"
| "EncodeToString [a, b] =
     (let x = (of_char a :: nat); y = (of_char b :: nat)
      in [enc (x div 4), enc ((x mod 4) * 16 + y div 16), enc ((y mod 16) * 4), CHR ''=''])"
| "EncodeToString (a # b # c # rest) =
     (let x = (of_char a :: nat); y = (of_char b :: nat); z = (of_char c :: nat)
      in [enc (x div 4), enc ((x mod 4) * 16 + y div 16),
          enc ((y mod 16) * 4 + z div 64), enc (z mod 64)] @ EncodeToString rest)"

fun index_of :: "'a \<Rightarrow> 'a list \<Rightarrow> nat option" where
  "index_of c [] = None"
| "index_of c (x # xs) =
     (if c = x then Some 0 else map_option Suc (index_of c xs))"

definition decodeMap :: "char \<Rightarrow> nat option" where
  "decodeMap c = index_of c encodeStd"

text \<open>
  Decoding one quantum of four characters at a time. Padding is accepted in the last
  quantum only; a character outside the alphabet, a padding character anywhere else and
  a length that is not a multiple of four are corrupt input. The bits of a padded
  quantum that belong to no byte are dropped (the standard encoding is not strict).
\<close>

fun decodeQuanta :: "string \<Rightarrow> string option" where
  "decodeQuanta [] = Some []"
| "decodeQuanta [c0, c1, c2, c3] =
     (case (decodeMap c0, decodeMap c1) of
        (Some i0, Some i1) \<Rightarrow>
          (if c2 = CHR ''='' then
             (if c3 = CHR ''='' then Some [char_of (i0 * 4 + i1 div 16)] else None)
           else
             (case decodeMap c2 of
                None \<Rightarrow> None
              | Some i2 \<Rightarrow>
                  (if c3 = CHR ''='' then
                     Some [char_of (i0 * 4 + i1 div 16), char_of ((i1 mod 16) * 16 + i2 div 4)]
                   else
                     (case decodeMap c3 of
                        None \<Rightarrow> None
                      | Some i3 \<Rightarrow>
                          Some [char_of (i0 * 4 + i1 div 16),
                                char_of ((i1 mod 16) * 16 + i2 div 4),
                                char_of ((i2 mod 4) * 64 + i3)]))))
      | _ \<Rightarrow> None)"
| "decodeQuanta (c0 # c1 # c2 # c3 # rest) =
     (case (decodeMap c0, decodeMap c1, decodeMap c2, decodeMap c3) of
        (Some i0, Some i1, Some i2, Some i3) \<Rightarrow>
          (case decodeQuanta rest of
             None \<Rightarrow> None
           | Some bs \<Rightarrow>
               Some (char_of (i0 * 4 + i1 div 16) #
                     char_of ((i1 mod 16) * 16 + i2 div 4) #
                     char_of ((i2 mod 4) * 64 + i3) # bs))
      | _ \<Rightarrow> None)"
| "decodeQuanta _ = None"

text \<open>
  \<open>DecodeString\<close> skips carriage returns and line feeds, then decodes. Beside the error
  Go also returns the bytes decoded so far; the one caller below drops them, so the
  model returns the error alone.
\<close>

definition DecodeString :: "string \<Rightarrow> error + string" where
  "DecodeString s =
     (case decodeQuanta (filter (\<lambda>c. c \<noteq> CHR 0x0D \<and> c \<noteq> CHR 0x0A) s) of
        None \<Rightarrow> Inl CorruptInputError
      | Some bs \<Rightarrow> Inr bs)"

section \<open>Package \<open>config_center\<close>: options\<close>

text \<open>
  Modelled from the spec: the declarations of \<open>config_center.Options\<close> and
  \<open>config_center.Option\<close> are not under src/. The spec identifies a configuration entry by
  a (group, key) pair with an optional group; the source reads the field \<open>Group\<close> of an
  \<open>Options\<close> value that starts zeroed and is updated by each option in turn.
\<close>

record Options =
  Group :: string

type_synonym Option = "Options \<Rightarrow> Options"

definition WithGroup :: "string \<Rightarrow> Option" where
  "WithGroup g tmpOpts = tmpOpts\<lparr>Group := g\<rparr>"

definition applyOptions :: "Option list \<Rightarrow> Options" where
  "applyOptions opts = foldl (\<lambda>tmpOpts opt. opt tmpOpts) \<lparr>Group = []\<rparr> opts"

section \<open>Package \<open>zookeeper\<close>: the ZooKeeper configuration centre\<close>

text \<open>
  The ZooKeeper client of the library \<open>gost\<close> is outside the repository. It is modelled as
  the node store it fronts, a map from a node's path to its content:
  \<open>GetContent\<close> fails with \<open>ErrNoNode\<close> at a path that holds nothing, and
  \<open>CreateWithValue\<close> creates the node with the given content, failing with
  \<open>ErrNodeExists\<close> (and writing nothing) when the node is already there.
\<close>

type_synonym ZookeeperClient = "string \<rightharpoonup> string"

definition GetContent :: "ZookeeperClient \<Rightarrow> string \<Rightarrow> string \<times> error option" where
  "GetContent cl path =
     (case cl path of None \<Rightarrow> ([], Some ErrNoNode) | Some content \<Rightarrow> (content, None))"


text \<open>
  \<open>zookeeperDynamicConfiguration\<close>, with the fields that \<open>GetProperties\<close>, \<open>PublishConfig\<close>,
  \<open>getPath\<close> and \<open>buildPath\<close> read: the root path, the client (named \<open>zkClient\<close> here, the
  invoker below has a field \<open>client\<close> too) and the base64 flag.
\<close>

record zookeeperDynamicConfiguration =
  rootPath :: string
  zkClient :: ZookeeperClient
  base64Enabled :: bool


text \<open>
  Lines 103 to 122 of \<open>GetProperties\<close>: the options are applied, the key is rewritten
  (prefixed by the group, or split at its last dot) and the path handed to the client is
  the root path, a slash and the rewritten key. With \<open>i = -1\<close> the slice \<open>key[0:i]\<close>
  panics.
\<close>

definition resolvePath ::
  "zookeeperDynamicConfiguration \<Rightarrow> string \<Rightarrow> Option list \<Rightarrow> string outcome" where
  "resolvePath c key opts =
     (let tmpOpts = applyOptions opts
      in if length (Group tmpOpts) \<noteq> 0
         then Returns (rootPath c @ ''/'' @ (Group tmpOpts @ ''/'' @ key))
         else
           (let i = LastIndex key (CHR ''.'')
            in case slice key 0 i of
                 Panics p \<Rightarrow> Panics p
               | Returns a \<Rightarrow>
                   (case slice key (i + 1) (int (length key)) of
                      Panics p \<Rightarrow> Panics p
                    | Returns b \<Rightarrow> Returns (rootPath c @ ''/'' @ (a @ ''/'' @ b)))))"

definition GetProperties ::
  "zookeeperDynamicConfiguration \<Rightarrow> string \<Rightarrow> Option list \<Rightarrow> (string \<times> error option) outcome" where
  "GetProperties c key opts =
     (case resolvePath c key opts of
        Panics p \<Rightarrow> Panics p
      | Returns path \<Rightarrow>
          (case GetContent (zkClient c) path of
             (content, Some err) \<Rightarrow> Returns ([], Some (WithStack err))
           | (content, None) \<Rightarrow>
               (if \<not> base64Enabled c then Returns (content, None)
                else
                  (case DecodeString content of
                     Inl err \<Rightarrow> Returns ([], Some (WithStack err))
                   | Inr decoded \<Rightarrow> Returns (decoded, None)))))"




section \<open>Package \<open>apollo\<close>: the Apollo configuration centre\<close>

text \<open>
  The Apollo client library \<open>agollo\<close> is outside the repository. Its cache is a map from a
  namespace to the content \<open>GetContent()\<close> gives for it; \<open>agollo.GetConfig\<close> returns nil
  for a namespace the map does not hold.
\<close>

type_synonym agollo = "string \<rightharpoonup> string"

record AppConfig =
  NamespaceName :: string

record apolloConfiguration =
  appConf :: AppConfig

text \<open>\<open>fmt.Sprintf("nothing in namespace:%s ", key)\<close>.\<close>

definition nothingInNamespace :: "string \<Rightarrow> string" where
  "nothingInNamespace key = ''nothing in namespace:'' @ key @ '' ''"

text \<open>
  \<open>apolloConfiguration.PublishConfig\<close>. The method has no access to the cache but through
  the library; the model hands the cache through to show it is left as it was.
\<close>

definition apollo_PublishConfig ::
  "agollo \<Rightarrow> apolloConfiguration \<Rightarrow> string \<Rightarrow> string \<Rightarrow> string \<Rightarrow> agollo \<times> error option" where
  "apollo_PublishConfig cache c key grp val = (cache, Some (New ''unsupport operation''))"

text \<open>
  \<open>apolloConfiguration.GetProperties\<close>. \<open>b[8:]\<close> is the slice from 8 to \<open>len(b)\<close>.
\<close>

definition apollo_GetProperties ::
  "agollo \<Rightarrow> apolloConfiguration \<Rightarrow> string \<Rightarrow> Option list \<Rightarrow> (string \<times> error option) outcome" where
  "apollo_GetProperties cache c key0 opts =
     (let key = (if key0 = [] then NamespaceName (appConf c) else key0)
      in case cache key of
           None \<Rightarrow> Returns ([], Some (New (nothingInNamespace key)))
         | Some content \<Rightarrow>
             (let b = content
              in if length b = 0 then Returns ([], Some (New (nothingInNamespace key)))
                 else
                   (case slice b 8 (int (length b)) of
                      Panics p \<Rightarrow> Panics p
                    | Returns content' \<Rightarrow> Returns (content', None))))"

section \<open>Packages \<open>strconv\<close>, \<open>strings\<close> and \<open>time\<close>\<close>

text \<open>
  \<open>strconv.ParseBool\<close> accepts twelve spellings and fails on every other string
  (\<open>None\<close> is the error).
\<close>

definition ParseBool :: "string \<Rightarrow> bool option" where
  "ParseBool str =
     (if str \<in> set [''1'', ''t'', ''T'', ''TRUE'', ''true'', ''True''] then Some True
      else if str \<in> set [''0'', ''f'', ''F'', ''FALSE'', ''false'', ''False''] then Some False
      else None)"

text \<open>\<open>strconv.Itoa\<close>: the decimal digits of an integer, after a minus sign when negative.\<close>

fun digits :: "nat \<Rightarrow> string" where
  "digits n =
     (if n < 10 then [''0123456789'' ! n]
      else digits (n div 10) @ [''0123456789'' ! (n mod 10)])"

declare digits.simps [simp del]

definition Itoa :: "int \<Rightarrow> string" where
  "Itoa i = (if i < 0 then CHR ''-'' # digits (nat (- i)) else digits (nat i))"

text \<open>\<open>strings.Join\<close>.\<close>

fun Join :: "string list \<Rightarrow> string \<Rightarrow> string" where
  "Join [] sep = []"
| "Join [x] sep = x"
| "Join (x # y # ys) sep = x @ sep @ Join (y # ys) sep"

text \<open>
  A \<open>time.Duration\<close> is a number of nanoseconds. \<open>Milliseconds\<close> divides by a million;
  Go's integer division truncates toward zero. (\<open>int64\<close> and, on a 64-bit platform,
  \<open>int\<close> hold the quotient of every duration, so the conversions of the source change
  nothing.) \<open>time.ParseDuration\<close> is a parameter of the functions that call it, a
  function from the text to the duration, \<open>None\<close> when it returns an error.
\<close>

type_synonym Duration = int

definition Milliseconds :: "Duration \<Rightarrow> int" where
  "Milliseconds d = (if d < 0 then - ((- d) div 1000000) else d div 1000000)"

section \<open>Packages \<open>constant\<close>, \<open>common\<close>, \<open>protocol\<close> and \<open>remoting\<close>\<close>

text \<open>
  Modelled from the spec: the keys of package \<open>constant\<close> are declared outside src/. Their
  values are the words of the spec (the \<open>path\<close> attachment; the allow-list interface,
  group, token, timeout, version; \<open>methods.foo.timeout\<close>; the serialization parameter; the
  async flag; the generic mark) and, for the default codec, of the source's comment.
\<close>

definition PATH_KEY :: string where "PATH_KEY = ''path''"
definition INTERFACE_KEY :: string where "INTERFACE_KEY = ''interface''"
definition GROUP_KEY :: string where "GROUP_KEY = ''group''"
definition TOKEN_KEY :: string where "TOKEN_KEY = ''token''"
definition TIMEOUT_KEY :: string where "TIMEOUT_KEY = ''timeout''"
definition VERSION_KEY :: string where "VERSION_KEY = ''version''"
definition SERIALIZATION_KEY :: string where "SERIALIZATION_KEY = ''serialization''"
definition HESSIAN2_SERIALIZATION :: string where "HESSIAN2_SERIALIZATION = ''hessian2''"
definition ASYNC_KEY :: string where "ASYNC_KEY = ''async''"
definition GENERIC_KEY :: string where "GENERIC_KEY = ''generic''"
definition METHOD_KEYS :: string where "METHOD_KEYS = ''methods''"

text \<open>
  Modelled from the spec: \<open>common.URL\<close> is declared outside src/. The spec describes a
  target identity as a host and port (the location) and string parameters. \<open>GetParam\<close>
  gives the default for a parameter that is not set, \<open>GetParamBool\<close> parses the parameter
  and gives the default when it does not parse, \<open>SetParam\<close> sets a parameter.
\<close>

record URL =
  Location :: string
  params :: "string \<rightharpoonup> string"

definition GetParam :: "URL \<Rightarrow> string \<Rightarrow> string \<Rightarrow> string" where
  "GetParam u k d = (case params u k of None \<Rightarrow> d | Some v \<Rightarrow> v)"

definition GetParamBool :: "URL \<Rightarrow> string \<Rightarrow> bool \<Rightarrow> bool" where
  "GetParamBool u k d = (case ParseBool (GetParam u k []) of None \<Rightarrow> d | Some b \<Rightarrow> b)"

definition SetParam :: "URL \<Rightarrow> string \<Rightarrow> string \<Rightarrow> URL" where
  "SetParam u k v = u\<lparr>params := (params u)(k \<mapsto> v)\<rparr>"

text \<open>
  Modelled from the spec: \<open>protocol.BaseInvoker\<close> is declared outside src/. The spec gives
  an invoker the states active, destroying and destroyed; it starts active, the base
  lifecycle hook \<open>Destroy\<close> marks it destroyed, and it is available while active.
\<close>

record BaseInvoker =
  url :: URL
  available :: bool
  destroyed :: bool

definition NewBaseInvoker :: "URL \<Rightarrow> BaseInvoker" where
  "NewBaseInvoker u = \<lparr>url = u, available = True, destroyed = False\<rparr>"

definition BaseInvoker_IsAvailable :: "BaseInvoker \<Rightarrow> bool" where
  "BaseInvoker_IsAvailable bi = available bi"

definition BaseInvoker_Destroy :: "BaseInvoker \<Rightarrow> BaseInvoker" where
  "BaseInvoker_Destroy bi = bi\<lparr>destroyed := True, available := False\<rparr>"

text \<open>
  Modelled from the spec: \<open>invocation.RPCInvocation\<close> is declared outside src/. The spec
  describes an invocation as a method name, arguments, attachments (string keys and
  values) and slots for the reply object and an optional completion callback. A value
  of type \<open>interface{}\<close> is a string or something else; the reply slot is \<open>None\<close> when
  nil and otherwise holds the reply object it points to; a callback is absent, of the
  type \<open>func(response common.CallbackResponse)\<close>, or of another type.
\<close>

datatype any = Str string | Obj nat

datatype callback = NoCallBack | ResponseCallBack nat | OtherCallBack nat

record RPCInvocation =
  methodName :: string
  arguments :: "any list"
  reply :: "any option"
  callBack :: callback
  attachments :: "string \<rightharpoonup> string"

definition SetAttachments :: "RPCInvocation \<Rightarrow> string \<Rightarrow> string \<Rightarrow> RPCInvocation" where
  "SetAttachments iv k v = iv\<lparr>attachments := (attachments iv)(k \<mapsto> v)\<rparr>"

definition AttachmentsByKey :: "RPCInvocation \<Rightarrow> string \<Rightarrow> string \<Rightarrow> string" where
  "AttachmentsByKey iv k d = (case attachments iv k of None \<Rightarrow> d | Some v \<Rightarrow> v)"

text \<open>\<open>protocol.RPCResult\<close>, and the zero result with its error set.\<close>

record RPCResult =
  Attrs :: "string \<rightharpoonup> any"
  Err :: "error option"
  Rest :: "any option"

definition zeroResult :: RPCResult where
  "zeroResult = \<lparr>Attrs = Map.empty, Err = None, Rest = None\<rparr>"

definition failed :: "error \<Rightarrow> RPCResult" where
  "failed e = zeroResult\<lparr>Err := Some e\<rparr>"

text \<open>
  Modelled from the spec: \<open>remoting.ExchangeClient\<close> is declared outside src/. The spec
  gives the client a reference count, decremented on an invoker's destruction, and has
  it closed when the count reaches zero; it offers a blocking request that populates the
  reply, an asynchronous request whose completion goes to the callback out of band, and
  a fire-and-forget send. The client keeps the list of the calls handed to it. What the
  remote side answers is the parameter \<open>net\<close>: the error of the call, the reply object and
  the response attributes.
\<close>

datatype call =
    RequestCall RPCInvocation URL Duration
  | AsyncRequestCall RPCInvocation URL Duration nat
  | SendCall RPCInvocation URL Duration

record response =
  rsp_err :: "error option"
  rsp_reply :: any
  rsp_attrs :: "string \<rightharpoonup> any"

record ExchangeClient =
  activeNumber :: int
  closed :: bool
  calls :: "call list"

definition DecreaseActiveNumber :: "ExchangeClient \<Rightarrow> ExchangeClient \<times> int" where
  "DecreaseActiveNumber cl = (cl\<lparr>activeNumber := activeNumber cl - 1\<rparr>, activeNumber cl - 1)"

definition Close :: "ExchangeClient \<Rightarrow> ExchangeClient" where
  "Close cl = cl\<lparr>closed := True\<rparr>"

definition Request ::
  "(call \<Rightarrow> response) \<Rightarrow> ExchangeClient \<Rightarrow> RPCInvocation \<Rightarrow> URL \<Rightarrow> Duration \<Rightarrow> RPCResult \<Rightarrow>
     ExchangeClient \<times> RPCInvocation \<times> RPCResult \<times> error option" where
  "Request net cl iv u t rest =
     (let c = RequestCall iv u t; cl' = cl\<lparr>calls := calls cl @ [c]\<rparr>
      in case rsp_err (net c) of
           Some e \<Rightarrow> (cl', iv, rest, Some e)
         | None \<Rightarrow>
             (cl', iv\<lparr>reply := Some (rsp_reply (net c))\<rparr>, rest\<lparr>Attrs := rsp_attrs (net c)\<rparr>, None))"

definition AsyncRequest ::
  "(call \<Rightarrow> response) \<Rightarrow> ExchangeClient \<Rightarrow> RPCInvocation \<Rightarrow> URL \<Rightarrow> Duration \<Rightarrow> nat \<Rightarrow>
     RPCResult \<Rightarrow> ExchangeClient \<times> RPCInvocation \<times> RPCResult \<times> error option" where
  "AsyncRequest net cl iv u t cb rest =
     (let c = AsyncRequestCall iv u t cb
      in (cl\<lparr>calls := calls cl @ [c]\<rparr>, iv, rest, rsp_err (net c)))"

definition Send ::
  "(call \<Rightarrow> response) \<Rightarrow> ExchangeClient \<Rightarrow> RPCInvocation \<Rightarrow> URL \<Rightarrow> Duration \<Rightarrow>
     ExchangeClient \<times> error option" where
  "Send net cl iv u t =
     (let c = SendCall iv u t in (cl\<lparr>calls := calls cl @ [c]\<rparr>, rsp_err (net c)))"

section \<open>Package \<open>dubbo\<close>: the invoker\<close>

text \<open>
  Exchange clients are shared between invokers: an invoker holds the address of its
  client (\<open>None\<close> is the nil pointer), and the world holds the client at each address and
  the pool \<open>exchangeClientMap\<close>, from a location to the address of its client. The
  read-write mutex \<open>clientGuard\<close> is not a field of the model; \<open>quitOnce\<close> is the flag of the
  \<open>sync.Once\<close>, true once its function has run.
\<close>

record world =
  clients :: "nat \<Rightarrow> ExchangeClient"
  exchangeClientMap :: "string \<rightharpoonup> nat"

record DubboInvoker =
  BaseInvoker :: BaseInvoker
  client :: "nat option"
  quitOnce :: bool
  timeout :: Duration

definition attachmentKey :: "string list" where
  "attachmentKey = [INTERFACE_KEY, GROUP_KEY, TOKEN_KEY, TIMEOUT_KEY, VERSION_KEY]"

definition GetURL :: "DubboInvoker \<Rightarrow> URL" where
  "GetURL di = url (BaseInvoker di)"

text \<open>
  \<open>NewDubboInvoker\<close>. \<open>URL.GetParamDuration\<close> and the consumer configuration are outside
  src/: the first is the parameter \<open>GetParamDuration\<close>, the second gives the parameter
  \<open>rt\<close>, the configured request timeout.
\<close>

definition NewDubboInvoker ::
  "(URL \<Rightarrow> string \<Rightarrow> 'rt \<Rightarrow> Duration) \<Rightarrow> 'rt \<Rightarrow> URL \<Rightarrow> nat option \<Rightarrow> DubboInvoker" where
  "NewDubboInvoker GetParamDuration rt u cl =
     \<lparr>BaseInvoker = NewBaseInvoker u, client = cl, quitOnce = False,
      timeout = GetParamDuration u TIMEOUT_KEY rt\<rparr>"

definition setClient :: "DubboInvoker \<Rightarrow> nat option \<Rightarrow> DubboInvoker" where
  "setClient di cl = di\<lparr>client := cl\<rparr>"

definition getClient :: "DubboInvoker \<Rightarrow> nat option" where
  "getClient di = client di"

text \<open>
  Lines 420 to 423 of \<open>getTimeout\<close>: the method name, replaced by the first argument when
  the URL is generic. Indexing an empty argument list and asserting that a value that is
  not a string is one both panic.
\<close>

definition effectiveMethodName :: "DubboInvoker \<Rightarrow> RPCInvocation \<Rightarrow> string outcome" where
  "effectiveMethodName di invocation =
     (if GetParamBool (GetURL di) GENERIC_KEY False then
        (case arguments invocation of
           [] \<Rightarrow> Panics IndexOutOfRange
         | Str s # rest \<Rightarrow> Returns s
         | Obj n # rest \<Rightarrow> Panics InterfaceConversion)
      else Returns (methodName invocation))"

definition getTimeout ::
  "(string \<Rightarrow> Duration option) \<Rightarrow> DubboInvoker \<Rightarrow> RPCInvocation \<Rightarrow>
     (Duration \<times> RPCInvocation) outcome" where
  "getTimeout ParseDuration di invocation =
     (case effectiveMethodName di invocation of
        Panics p \<Rightarrow> Panics p
      | Returns name \<Rightarrow>
          (let timeoutStr = GetParam (GetURL di) (Join [METHOD_KEYS, name, TIMEOUT_KEY] ''.'') []
           in case (if length timeoutStr \<noteq> 0 then ParseDuration timeoutStr else None) of
                Some t \<Rightarrow>
                  Returns (t, SetAttachments invocation TIMEOUT_KEY (Itoa (Milliseconds t)))
              | None \<Rightarrow>
                  Returns (timeout di,
                    SetAttachments invocation TIMEOUT_KEY (Itoa (Milliseconds (timeout di))))))"

text \<open>
  Modelled from the spec: \<open>injectTraceCtx\<close> is declared outside src/. The spec makes the
  injection a function from the span and the attachments to the attachments, whose
  failure is logged and never fatal. A context carries a span or none; the span is its
  injection, \<open>None\<close> when it fails.
\<close>

type_synonym span = "(string \<rightharpoonup> string) \<Rightarrow> (string \<rightharpoonup> string) option"

definition injectTraceCtx :: "span \<Rightarrow> RPCInvocation \<Rightarrow> RPCInvocation \<times> error option" where
  "injectTraceCtx currentSpan iv =
     (case currentSpan (attachments iv) of
        None \<Rightarrow> (iv, Some (New ''inject''))
      | Some a \<Rightarrow> (iv\<lparr>attachments := a\<rparr>, None))"

definition appendCtx :: "span option \<Rightarrow> RPCInvocation \<Rightarrow> RPCInvocation" where
  "appendCtx ctx iv =
     (case ctx of
        None \<Rightarrow> iv
      | Some currentSpan \<Rightarrow> fst (injectTraceCtx currentSpan iv))"

text \<open>Lines 372 to 377 of \<open>Invoke\<close>: the path attachment and the allow-listed parameters.\<close>

definition initAttachments :: "DubboInvoker \<Rightarrow> RPCInvocation \<Rightarrow> RPCInvocation" where
  "initAttachments di iv =
     foldl (\<lambda>iv' k. (let v = GetParam (GetURL di) k []
                      in if length v > 0 then SetAttachments iv' k v else iv'))
       (SetAttachments iv PATH_KEY (GetParam (GetURL di) INTERFACE_KEY []))
       attachmentKey"

text \<open>Lines 382 to 386: the URL of the invoker gets the default serialization.\<close>

definition defaultSerialization :: "DubboInvoker \<Rightarrow> DubboInvoker" where
  "defaultSerialization di =
     (if GetParam (GetURL di) SERIALIZATION_KEY [] = []
      then di\<lparr>BaseInvoker := (BaseInvoker di)\<lparr>url :=
             SetParam (GetURL di) SERIALIZATION_KEY HESSIAN2_SERIALIZATION\<rparr>\<rparr>
      else di)"

text \<open>Lines 388 to 392: the async flag; a string that does not parse counts as false.\<close>

definition asyncFlag :: "RPCInvocation \<Rightarrow> bool" where
  "asyncFlag iv =
     (case ParseBool (AttachmentsByKey iv ASYNC_KEY ''false'') of
        None \<Rightarrow> False
      | Some async \<Rightarrow> async)"

text \<open>
  Lines 396 to 408: the call is handed to the client at address \<open>a\<close>. The result is the
  world, the invocation, the result \<open>rest\<close> the client fills, and the error.
\<close>

definition dispatch ::
  "(call \<Rightarrow> response) \<Rightarrow> bool \<Rightarrow> nat \<Rightarrow> world \<Rightarrow> RPCInvocation \<Rightarrow> URL \<Rightarrow> Duration \<Rightarrow>
     RPCResult \<Rightarrow> world \<times> RPCInvocation \<times> RPCResult \<times> error option" where
  "dispatch net async a w iv u t rest =
     (if async then
        (case callBack iv of
           ResponseCallBack cb \<Rightarrow>
             (case AsyncRequest net (clients w a) iv u t cb rest of
                (cl, iv', rest', e) \<Rightarrow> (w\<lparr>clients := (clients w)(a := cl)\<rparr>, iv', rest', e))
         | _ \<Rightarrow>
             (case Send net (clients w a) iv u t of
                (cl, e) \<Rightarrow> (w\<lparr>clients := (clients w)(a := cl)\<rparr>, iv, rest, e)))
      else
        (case reply iv of
           None \<Rightarrow> (w, iv, rest, Some ErrNoReply)
         | Some slot \<Rightarrow>
             (case Request net (clients w a) iv u t rest of
                (cl, iv', rest', e) \<Rightarrow> (w\<lparr>clients := (clients w)(a := cl)\<rparr>, iv', rest', e))))"

text \<open>
  Lines 356 to 415 of \<open>Invoke\<close>, which run while the read lock is held. The outcome is
  the result, the invocation, the invoker and the world as \<open>Invoke\<close> leaves them.
\<close>

definition Invoke_locked ::
  "(call \<Rightarrow> response) \<Rightarrow> (string \<Rightarrow> Duration option) \<Rightarrow> span option \<Rightarrow> DubboInvoker \<Rightarrow> world \<Rightarrow>
     RPCInvocation \<Rightarrow> (RPCResult \<times> RPCInvocation \<times> DubboInvoker \<times> world) outcome" where
  "Invoke_locked net ParseDuration ctx di w invocation =
     (case client di of
        None \<Rightarrow> Returns (failed ErrClientClosed, invocation, di, w)
      | Some a \<Rightarrow>
          (if \<not> BaseInvoker_IsAvailable (BaseInvoker di)
           then Returns (failed ErrDestroyedInvoker, invocation, di, w)
           else
             (let iv = appendCtx ctx (initAttachments di invocation);
                  di' = defaultSerialization di;
                  async = asyncFlag iv;
                  rest = zeroResult
              in case getTimeout ParseDuration di' iv of
                   Panics p \<Rightarrow> Panics p
                 | Returns (t, iv') \<Rightarrow>
                     (case dispatch net async a w iv' (GetURL di') t rest of
                        (w', iv'', rest', Some e) \<Rightarrow> Returns (failed e, iv'', di', w')
                      | (w', iv'', rest', None) \<Rightarrow>
                          Returns (zeroResult\<lparr>Rest := reply iv'', Attrs := Attrs rest'\<rparr>,
                                   iv'', di', w')))))"

text \<open>
  \<open>Invoke\<close>. Between the first availability check and the moment the read lock is held,
  other goroutines may run: \<open>race\<close> is what they do to the invoker and the world in
  between (the identity when \<open>Invoke\<close> runs alone). What they do to the availability flag
  while the lock is held has the same effect on the two checks under the lock as if
  done before, since the first of them reads the client only.
\<close>

definition Invoke ::
  "(DubboInvoker \<times> world \<Rightarrow> DubboInvoker \<times> world) \<Rightarrow> (call \<Rightarrow> response) \<Rightarrow>
     (string \<Rightarrow> Duration option) \<Rightarrow> span option \<Rightarrow> DubboInvoker \<Rightarrow> world \<Rightarrow> RPCInvocation \<Rightarrow>
     (RPCResult \<times> RPCInvocation \<times> DubboInvoker \<times> world) outcome" where
  "Invoke race net ParseDuration ctx di w invocation =
     (if \<not> BaseInvoker_IsAvailable (BaseInvoker di)
      then Returns (failed ErrDestroyedInvoker, invocation, di, w)
      else
        (case race (di, w) of
           (di1, w1) \<Rightarrow> Invoke_locked net ParseDuration ctx di1 w1 invocation))"

text \<open>
  \<open>Destroy\<close>, on the invoker and the world. \<open>sync.Once\<close> runs the function if the flag is
  not set and sets it; callers that arrive meanwhile wait for the run to end, so calls
  of \<open>Destroy\<close> on one invoker take effect one after the other.
\<close>

definition Destroy :: "DubboInvoker \<times> world \<Rightarrow> DubboInvoker \<times> world" where
  "Destroy s =
     (case s of (di, w) \<Rightarrow>
        if quitOnce di then (di, w)
        else
          (let di1 = di\<lparr>BaseInvoker := BaseInvoker_Destroy (BaseInvoker di), quitOnce := True\<rparr>
           in case getClient di1 of
                None \<Rightarrow> (di1, w)
              | Some a \<Rightarrow>
                  (case DecreaseActiveNumber (clients w a) of
                     (cl, activeNumber') \<Rightarrow>
                       (let w1 = w\<lparr>clients := (clients w)(a := cl)\<rparr>;
                            di2 = setClient di1 None
                        in if activeNumber' = 0
                           then (di2,
                                 w1\<lparr>exchangeClientMap :=
                                       (exchangeClientMap w1)(Location (GetURL di2) := None),
                                    clients := (clients w1)(a := Close (clients w1 a))\<rparr>)
                           else (di2, w1)))))"

section \<open>Example values\<close>

text \<open>
  The invoker of the spec's timeout example: a service-level timeout of 5 seconds and the
  URL parameter \<open>methods.foo.timeout=200ms\<close>; it is bound to the client at address 0,
  which one invoker references and the pool lists under the invoker's location. The
  remote side answers every call with the reply \<open>pong\<close>; \<open>exampleParseDuration\<close> holds
  two lines of the table of \<open>time.ParseDuration\<close>.
\<close>

definition exampleURL :: URL where
  "exampleURL =
     \<lparr>Location = ''127.0.0.1:20000'',
      params = [''interface'' \<mapsto> ''UserProvider'', ''methods.foo.timeout'' \<mapsto> ''200ms'']\<rparr>"

definition exampleInvoker :: DubboInvoker where
  "exampleInvoker =
     \<lparr>BaseInvoker = NewBaseInvoker exampleURL, client = Some 0, quitOnce = False,
      timeout = 5000000000\<rparr>"

definition exampleWorld :: world where
  "exampleWorld =
     \<lparr>clients = (\<lambda>a. \<lparr>activeNumber = 1, closed = False, calls = []\<rparr>),
      exchangeClientMap = [''127.0.0.1:20000'' \<mapsto> 0]\<rparr>"

definition exampleParseDuration :: "string \<Rightarrow> Duration option" where
  "exampleParseDuration = [''200ms'' \<mapsto> 200000000, ''5s'' \<mapsto> 5000000000]"

definition exampleNet :: "call \<Rightarrow> response" where
  "exampleNet c = \<lparr>rsp_err = None, rsp_reply = Str ''pong'', rsp_attrs = Map.empty\<rparr>"

definition exampleInvocation :: "string \<Rightarrow> (string \<rightharpoonup> string) \<Rightarrow> RPCInvocation" where
  "exampleInvocation name atts =
     \<lparr>methodName = name, arguments = [], reply = Some (Obj 0), callBack = NoCallBack,
      attachments = atts\<rparr>"

definition exampleGenericInvoker :: DubboInvoker where
  "exampleGenericInvoker =
     exampleInvoker\<lparr>BaseInvoker :=
       NewBaseInvoker (SetParam exampleURL ''generic'' ''true'')\<rparr>"

section \<open>Notation for the statements\<close>


section \<open>Properties of the configuration centres\<close>

subsection \<open>Slices and \<open>LastIndex\<close>\<close>

lemma LastIndex_no_sep: "sep \<notin> set s \<Longrightarrow> LastIndex s sep = - 1"
  by (induction s) (auto simp: Let_def)

lemma LastIndex_last:
  "sep \<notin> set suf \<Longrightarrow> LastIndex (pre @ sep # suf) sep = int (length pre)"
  by (induction pre) (auto simp: Let_def LastIndex_no_sep)

lemma slice_prefix: "slice (pre @ x) 0 (int (length pre)) = Returns pre"
  by (simp add: slice_def)

lemma slice_suffix:
  "slice (pre @ sep # suf) (int (length pre) + 1) (int (length (pre @ sep # suf))) = Returns suf"
  by (simp add: slice_def nat_add_distrib)

subsection \<open>The base64 round trip\<close>





















lemma EncodeToString_Nil_iff: "EncodeToString bs = [] \<longleftrightarrow> bs = []"
  by (induction bs rule: EncodeToString.induct) (simp_all add: Let_def)





subsection \<open>Path resolution of the ZooKeeper centre\<close>

lemma resolvePath_group:
  "Group (applyOptions opts) \<noteq> [] \<Longrightarrow>
   resolvePath c key opts = Returns (rootPath c @ ''/'' @ Group (applyOptions opts) @ ''/'' @ key)"
  by (simp add: resolvePath_def Let_def)

lemma resolvePath_split:
  assumes "Group (applyOptions opts) = []" and "CHR ''.'' \<notin> set suf"
  shows "resolvePath c (pre @ CHR ''.'' # suf) opts = Returns (rootPath c @ ''/'' @ pre @ ''/'' @ suf)"
proof -
  have i: "LastIndex (pre @ CHR ''.'' # suf) (CHR ''.'') = int (length pre)"
    using assms(2) by (rule LastIndex_last)
  show ?thesis
    unfolding resolvePath_def Let_def i
    using assms(1) slice_prefix [of pre "CHR ''.'' # suf"] slice_suffix [of pre "CHR ''.''" suf]
    by simp
qed

lemma resolvePath_no_dot:
  assumes "Group (applyOptions opts) = []" and "CHR ''.'' \<notin> set key"
  shows "resolvePath c key opts = Panics SliceBoundsOutOfRange"
  using assms by (simp add: resolvePath_def Let_def LastIndex_no_sep slice_def)

lemma GetProperties_plain:
  assumes "resolvePath c key opts = Returns p" and "zkClient c p = Some v"
    and "\<not> base64Enabled c"
  shows "GetProperties c key opts = Returns (v, None)"
  using assms by (simp add: GetProperties_def GetContent_def)


lemma GetProperties_absent:
  assumes "resolvePath c key opts = Returns p" and "zkClient c p = None"
  shows "GetProperties c key opts = Returns ([], Some (WithStack ErrNoNode))"
  using assms by (simp add: GetProperties_def GetContent_def)

text \<open>
  C6 (as the code has it). \<open>GetProperties\<close> fetches the path \<open>resolvePath\<close> gives. With a
  non-empty group option the path is the root path, a slash, the group, a slash and the
  key, so group \<open>dubbo\<close> and key \<open>dubbo.properties\<close> resolve to \<open>dubbo/dubbo.properties\<close>
  under the root. With no group the key is split at its last dot only, into two
  segments: \<open>org.apache.dubbo.DemoService.configurators\<close> resolves to
  \<open>org.apache.dubbo.DemoService/configurators\<close> under the root; the earlier dots stay.
  The content returned is what the client holds at that path (here with the base64 flag
  off), and a path that holds nothing gives the client's error.
\<close>

theorem GetProperties_path_resolution:
  "(Group (applyOptions opts) \<noteq> [] \<longrightarrow>
      resolvePath c key opts =
        Returns (rootPath c @ ''/'' @ Group (applyOptions opts) @ ''/'' @ key)) \<and>
   (Group (applyOptions opts') = [] \<and> CHR ''.'' \<notin> set suf \<longrightarrow>
      resolvePath c (pre @ ''.'' @ suf) opts' = Returns (rootPath c @ ''/'' @ pre @ ''/'' @ suf)) \<and>
   resolvePath c ''dubbo.properties'' [WithGroup ''dubbo''] =
     Returns (rootPath c @ ''/dubbo/dubbo.properties'') \<and>
   resolvePath c ''org.apache.dubbo.DemoService.configurators'' [] =
     Returns (rootPath c @ ''/org.apache.dubbo.DemoService/configurators'') \<and>
   (resolvePath c key opts = Returns p \<and> zkClient c p = Some v \<and> \<not> base64Enabled c \<longrightarrow>
      GetProperties c key opts = Returns (v, None)) \<and>
   (resolvePath c key opts = Returns p \<and> zkClient c p = None \<longrightarrow>
      GetProperties c key opts = Returns ([], Some (WithStack ErrNoNode)))"
proof -
  have ex1: "resolvePath c ''dubbo.properties'' [WithGroup ''dubbo''] =
      Returns (rootPath c @ ''/dubbo/dubbo.properties'')"
    by (simp add: resolvePath_def applyOptions_def WithGroup_def)
  have ex2: "resolvePath c ''org.apache.dubbo.DemoService.configurators'' [] =
      Returns (rootPath c @ ''/org.apache.dubbo.DemoService/configurators'')"
    using resolvePath_split [of "[]" "''configurators''" c "''org.apache.dubbo.DemoService''"]
    by (simp add: applyOptions_def)
  show ?thesis
    using ex1 ex2 resolvePath_group [of opts c key] resolvePath_split [of opts' suf c pre]
      GetProperties_plain [of c key opts p v] GetProperties_absent [of c key opts p]
    by simp
qed

theorem GetProperties_path_resolution_witness:
  "Group (applyOptions [WithGroup ''dubbo'']) \<noteq> [] \<and>
   resolvePath \<lparr>rootPath = ''/dubbo/config'', zkClient = [''/dubbo/config/dubbo/k.v'' \<mapsto> ''x''],
       base64Enabled = False\<rparr> ''k.v'' [WithGroup ''dubbo''] = Returns ''/dubbo/config/dubbo/k.v'' \<and>
   Group (applyOptions []) = [] \<and> CHR ''.'' \<notin> set ''v'' \<and>
   resolvePath \<lparr>rootPath = ''/dubbo/config'', zkClient = [''/dubbo/config/dubbo/k.v'' \<mapsto> ''x''],
       base64Enabled = False\<rparr> ''a.k.v'' [] = Returns ''/dubbo/config/a.k/v'' \<and>
   GetProperties \<lparr>rootPath = ''/dubbo/config'', zkClient = [''/dubbo/config/dubbo/k.v'' \<mapsto> ''x''],
       base64Enabled = False\<rparr> ''k.v'' [WithGroup ''dubbo''] = Returns (''x'', None)"
  using GetProperties_path_resolution [of "[WithGroup ''dubbo'']"
      "\<lparr>rootPath = ''/dubbo/config'', zkClient = [''/dubbo/config/dubbo/k.v'' \<mapsto> ''x''],
        base64Enabled = False\<rparr>" "''k.v''" "[]" "''v''" "''a.k''" "''/dubbo/config/dubbo/k.v''" "''x''"]
  by (simp add: applyOptions_def WithGroup_def)

theorem GetProperties_path_resolution_counterexample:
  "resolvePath \<lparr>rootPath = ''/dubbo/config'', zkClient = Map.empty, base64Enabled = False\<rparr>
      ''org.apache.dubbo.DemoService.configurators'' [] \<noteq>
   Returns (''/dubbo/config'' @ ''/'' @ ''org/apache/dubbo/DemoService/configurators'')"
  using resolvePath_split [of "[]" "''configurators''"
      "\<lparr>rootPath = ''/dubbo/config'', zkClient = Map.empty, base64Enabled = False\<rparr>"
      "''org.apache.dubbo.DemoService''"]
  by (simp add: applyOptions_def)

subsection \<open>The content transform of the ZooKeeper centre\<close>




subsection \<open>Panics of the two \<open>GetProperties\<close>\<close>

text \<open>
  C9. With no group among the options and a key without a dot, \<open>LastIndex\<close> gives \<open>-1\<close>,
  the slice \<open>key[0:i]\<close> is out of range and \<open>GetProperties\<close> panics: it returns neither a
  value nor an error. The public method reaches the panic with no option at all.
\<close>

theorem GetProperties_no_dot_panics:
  assumes "Group (applyOptions opts) = []" and "CHR ''.'' \<notin> set key"
  shows "GetProperties c key opts = Panics SliceBoundsOutOfRange"
  using resolvePath_no_dot [OF assms] by (simp add: GetProperties_def)

theorem GetProperties_no_dot_panics_witness:
  "Group (applyOptions []) = [] \<and> CHR ''.'' \<notin> set ''dubbo'' \<and>
   GetProperties \<lparr>rootPath = ''/dubbo/config'', zkClient = Map.empty, base64Enabled = False\<rparr>
     ''dubbo'' [] = Panics SliceBoundsOutOfRange"
proof -
  have g: "Group (applyOptions []) = []" by (simp add: applyOptions_def)
  have d: "CHR ''.'' \<notin> set ''dubbo''" by simp
  show ?thesis using g d GetProperties_no_dot_panics [OF g d] by simp
qed

text \<open>
  C10. When the cache holds a content for the namespace asked for (the key, or the
  configured namespace when the key is empty), the Apollo \<open>GetProperties\<close> looks at its
  length only: a content of at least 8 bytes is returned without its first 8 bytes,
  whatever they are, and a content of 1 to 7 bytes makes the slice \<open>b[8:]\<close> panic.
\<close>

theorem apollo_GetProperties_drops_8:
  assumes "cache (if key = [] then NamespaceName (appConf c) else key) = Some content"
  shows "(8 \<le> length content \<longrightarrow>
            apollo_GetProperties cache c key opts = Returns (drop 8 content, None)) \<and>
         (1 \<le> length content \<and> length content < 8 \<longrightarrow>
            apollo_GetProperties cache c key opts = Panics SliceBoundsOutOfRange)"
  using assms by (auto simp: apollo_GetProperties_def Let_def slice_def)

theorem apollo_GetProperties_drops_8_witness:
  "[''ns'' \<mapsto> ''timeout=5s''] ''ns'' = Some ''timeout=5s'' \<and>
   apollo_GetProperties [''ns'' \<mapsto> ''timeout=5s''] \<lparr>appConf = \<lparr>NamespaceName = ''ns''\<rparr>\<rparr> [] []
     = Returns (''5s'', None) \<and>
   [''ns'' \<mapsto> ''a=b''] ''ns'' = Some ''a=b'' \<and>
   apollo_GetProperties [''ns'' \<mapsto> ''a=b''] \<lparr>appConf = \<lparr>NamespaceName = ''ns''\<rparr>\<rparr> ''ns'' []
     = Panics SliceBoundsOutOfRange"
  using apollo_GetProperties_drops_8 [of "[''ns'' \<mapsto> ''timeout=5s'']" "[]"
      "\<lparr>appConf = \<lparr>NamespaceName = ''ns''\<rparr>\<rparr>" "''timeout=5s''" "[]"]
    apollo_GetProperties_drops_8 [of "[''ns'' \<mapsto> ''a=b'']" "''ns''"
      "\<lparr>appConf = \<lparr>NamespaceName = ''ns''\<rparr>\<rparr>" "''a=b''" "[]"]
  by simp

text \<open>
  C8. The Apollo \<open>PublishConfig\<close> returns the error \<open>unsupport operation\<close> for every key,
  group and value, and the cache is what it was.
\<close>

theorem apollo_PublishConfig_unsupported:
  "apollo_PublishConfig cache c key grp val = (cache, Some (New ''unsupport operation''))"
  by (simp add: apollo_PublishConfig_def)

section \<open>Properties of the invoker\<close>

subsection \<open>Destroy, the fast-fail checks and the timeout\<close>

lemma Destroy_done: "quitOnce di \<Longrightarrow> Destroy (di, w) = (di, w)"
  by (simp add: Destroy_def)

lemma Destroy_sets_flag: "quitOnce (fst (Destroy (di, w)))"
  by (simp add: Destroy_def Let_def setClient_def getClient_def DecreaseActiveNumber_def
      split: option.splits)

lemma Destroy_idem: "Destroy (Destroy s) = Destroy s"
proof (cases s)
  case (Pair di w)
  obtain di' w' where d: "Destroy (di, w) = (di', w')" by (cases "Destroy (di, w)")
  have "quitOnce di'" using Destroy_sets_flag [of di w] d by simp
  then show ?thesis using Pair d by (simp add: Destroy_done)
qed

lemma Destroy_funpow: "(Destroy ^^ Suc n) s = Destroy s"
proof (induction n)
  case 0
  show ?case by simp
next
  case (Suc n)
  have "(Destroy ^^ Suc (Suc n)) s = Destroy ((Destroy ^^ Suc n) s)" by simp
  also have "\<dots> = Destroy (Destroy s)" using Suc by simp
  also have "\<dots> = Destroy s" by (rule Destroy_idem)
  finally show ?case .
qed

lemma Destroy_bound:
  assumes "\<not> quitOnce di" and "client di = Some a"
  shows "Destroy (di, w) =
    (di\<lparr>BaseInvoker := BaseInvoker_Destroy (BaseInvoker di), quitOnce := True, client := None\<rparr>,
     if activeNumber (clients w a) - 1 = 0
     then w\<lparr>clients := (clients w)(a := (clients w a)\<lparr>activeNumber := activeNumber (clients w a) - 1,
                closed := True\<rparr>),
            exchangeClientMap := (exchangeClientMap w)(Location (GetURL di) := None)\<rparr>
     else w\<lparr>clients := (clients w)(a := (clients w a)\<lparr>activeNumber := activeNumber (clients w a) - 1\<rparr>)\<rparr>)"
  using assms
  by (simp add: Destroy_def Let_def setClient_def getClient_def DecreaseActiveNumber_def
      Close_def GetURL_def BaseInvoker_Destroy_def)

lemma Destroy_unbound:
  assumes "\<not> quitOnce di" and "client di = None"
  shows "Destroy (di, w) =
    (di\<lparr>BaseInvoker := BaseInvoker_Destroy (BaseInvoker di), quitOnce := True\<rparr>, w)"
  using assms by (simp add: Destroy_def Let_def getClient_def)


text \<open>
  C2. However many times \<open>Destroy\<close> is called on an invoker, the outcome is that of
  one call; once \<open>Destroy\<close> has run, the flag of the \<open>sync.Once\<close> is set and a later
  \<open>Destroy\<close> changes nothing, in whatever world it runs. The one run, on an invoker
  bound to a client, decrements the reference count of that client by exactly one (so a
  count of at least one does not become negative), leaves every other client alone,
  detaches the client reference and marks the invoker unavailable; the client is closed
  and its location removed from the pool when the decremented count is zero, and
  otherwise the pool and the client's open or closed state are as before. On an invoker
  with no client the world is untouched.
\<close>

theorem Destroy_exactly_once:
  "(Destroy ^^ Suc n) (di, w) = Destroy (di, w) \<and>
   (\<forall>w2. Destroy (fst (Destroy (di, w)), w2) = (fst (Destroy (di, w)), w2)) \<and>
   (\<not> quitOnce di \<and> client di = Some a \<and> Destroy (di, w) = (di', w') \<longrightarrow>
      activeNumber (clients w' a) = activeNumber (clients w a) - 1 \<and>
      (1 \<le> activeNumber (clients w a) \<longrightarrow> 0 \<le> activeNumber (clients w' a)) \<and>
      (\<forall>b. b \<noteq> a \<longrightarrow> clients w' b = clients w b) \<and>
      client di' = None \<and> quitOnce di' \<and> \<not> BaseInvoker_IsAvailable (BaseInvoker di') \<and>
      (activeNumber (clients w' a) = 0 \<longrightarrow>
         closed (clients w' a) \<and>
         exchangeClientMap w' = (exchangeClientMap w)(Location (GetURL di) := None)) \<and>
      (activeNumber (clients w' a) \<noteq> 0 \<longrightarrow>
         closed (clients w' a) = closed (clients w a) \<and>
         exchangeClientMap w' = exchangeClientMap w)) \<and>
   (\<not> quitOnce di \<and> client di = None \<longrightarrow> snd (Destroy (di, w)) = w)"
proof -
  have later: "\<forall>w2. Destroy (fst (Destroy (di, w)), w2) = (fst (Destroy (di, w)), w2)"
    using Destroy_sets_flag [of di w] by (simp add: Destroy_done)
  have bound: "\<not> quitOnce di \<and> client di = Some a \<and> Destroy (di, w) = (di', w') \<longrightarrow>
      activeNumber (clients w' a) = activeNumber (clients w a) - 1 \<and>
      (1 \<le> activeNumber (clients w a) \<longrightarrow> 0 \<le> activeNumber (clients w' a)) \<and>
      (\<forall>b. b \<noteq> a \<longrightarrow> clients w' b = clients w b) \<and>
      client di' = None \<and> quitOnce di' \<and> \<not> BaseInvoker_IsAvailable (BaseInvoker di') \<and>
      (activeNumber (clients w' a) = 0 \<longrightarrow>
         closed (clients w' a) \<and>
         exchangeClientMap w' = (exchangeClientMap w)(Location (GetURL di) := None)) \<and>
      (activeNumber (clients w' a) \<noteq> 0 \<longrightarrow>
         closed (clients w' a) = closed (clients w a) \<and>
         exchangeClientMap w' = exchangeClientMap w)"
  proof (intro impI, elim conjE)
    assume a: "\<not> quitOnce di" "client di = Some a" and d: "Destroy (di, w) = (di', w')"
    show "activeNumber (clients w' a) = activeNumber (clients w a) - 1 \<and>
      (1 \<le> activeNumber (clients w a) \<longrightarrow> 0 \<le> activeNumber (clients w' a)) \<and>
      (\<forall>b. b \<noteq> a \<longrightarrow> clients w' b = clients w b) \<and>
      client di' = None \<and> quitOnce di' \<and> \<not> BaseInvoker_IsAvailable (BaseInvoker di') \<and>
      (activeNumber (clients w' a) = 0 \<longrightarrow>
         closed (clients w' a) \<and>
         exchangeClientMap w' = (exchangeClientMap w)(Location (GetURL di) := None)) \<and>
      (activeNumber (clients w' a) \<noteq> 0 \<longrightarrow>
         closed (clients w' a) = closed (clients w a) \<and>
         exchangeClientMap w' = exchangeClientMap w)"
      using d unfolding Destroy_bound [OF a]
      by (auto simp: BaseInvoker_IsAvailable_def BaseInvoker_Destroy_def split: if_splits)
  qed
  have unbound: "\<not> quitOnce di \<and> client di = None \<longrightarrow> snd (Destroy (di, w)) = w"
    by (simp add: Destroy_unbound)
  show ?thesis
    using Destroy_funpow [of n "(di, w)"] later bound unbound by blast
qed

theorem Destroy_exactly_once_witness:
  "\<not> quitOnce exampleInvoker \<and> client exampleInvoker = Some 0 \<and>
   activeNumber (clients exampleWorld 0) = 1 \<and>
   activeNumber (clients (snd (Destroy (exampleInvoker, exampleWorld))) 0) = 0 \<and>
   closed (clients (snd (Destroy (exampleInvoker, exampleWorld))) 0) \<and>
   exchangeClientMap (snd (Destroy (exampleInvoker, exampleWorld))) = Map.empty \<and>
   client (fst (Destroy (exampleInvoker, exampleWorld))) = None \<and>
   (Destroy ^^ 3) (exampleInvoker, exampleWorld) = Destroy (exampleInvoker, exampleWorld) \<and>
   activeNumber (clients (exampleWorld\<lparr>clients := \<lambda>a. \<lparr>activeNumber = 2, closed = False, calls = []\<rparr>\<rparr>) 0) = 2 \<and>
   activeNumber (clients (snd (Destroy (exampleInvoker,
     exampleWorld\<lparr>clients := \<lambda>a. \<lparr>activeNumber = 2, closed = False, calls = []\<rparr>\<rparr>))) 0) = 1 \<and>
   \<not> closed (clients (snd (Destroy (exampleInvoker,
     exampleWorld\<lparr>clients := \<lambda>a. \<lparr>activeNumber = 2, closed = False, calls = []\<rparr>\<rparr>))) 0) \<and>
   exchangeClientMap (snd (Destroy (exampleInvoker,
     exampleWorld\<lparr>clients := \<lambda>a. \<lparr>activeNumber = 2, closed = False, calls = []\<rparr>\<rparr>))) =
     exchangeClientMap exampleWorld \<and>
   client (exampleInvoker\<lparr>client := None\<rparr>) = None \<and>
   snd (Destroy (exampleInvoker\<lparr>client := None\<rparr>, exampleWorld)) = exampleWorld"
proof -
  let ?w2 = "exampleWorld\<lparr>clients := \<lambda>a. \<lparr>activeNumber = 2, closed = False, calls = []\<rparr>\<rparr>"
  have q: "\<not> quitOnce exampleInvoker" and c: "client exampleInvoker = Some 0"
    and l: "Location (GetURL exampleInvoker) = ''127.0.0.1:20000''"
    by (simp_all add: exampleInvoker_def exampleURL_def GetURL_def NewBaseInvoker_def)
  have n: "activeNumber (clients exampleWorld 0) = 1" "\<not> closed (clients exampleWorld 0)"
    "exchangeClientMap exampleWorld = [''127.0.0.1:20000'' \<mapsto> 0]"
    "activeNumber (clients ?w2 0) = 2" "\<not> closed (clients ?w2 0)"
    "exchangeClientMap ?w2 = exchangeClientMap exampleWorld"
    by (simp_all add: exampleWorld_def)
  show ?thesis
    using q c l n
      Destroy_exactly_once [of 2 exampleInvoker exampleWorld 0
        "fst (Destroy (exampleInvoker, exampleWorld))" "snd (Destroy (exampleInvoker, exampleWorld))"]
      Destroy_exactly_once [of 0 exampleInvoker ?w2 0
        "fst (Destroy (exampleInvoker, ?w2))" "snd (Destroy (exampleInvoker, ?w2))"]
      Destroy_exactly_once [of 0 "exampleInvoker\<lparr>client := None\<rparr>" exampleWorld 0
        "exampleInvoker" "exampleWorld"]
    by (simp add: numeral_3_eq_3)
qed

lemma Invoke_unavailable:
  "\<not> BaseInvoker_IsAvailable (BaseInvoker di) \<Longrightarrow>
   Invoke race net pd ctx di w iv = Returns (failed ErrDestroyedInvoker, iv, di, w)"
  by (simp add: Invoke_def)

lemma Invoke_available:
  assumes "BaseInvoker_IsAvailable (BaseInvoker di)" and "race (di, w) = (dr, wr)"
  shows "Invoke race net pd ctx di w iv = Invoke_locked net pd ctx dr wr iv"
  using assms by (simp add: Invoke_def)

text \<open>
  C1. An invoker that is not available makes \<open>Invoke\<close> return the result with
  \<open>ErrDestroyedInvoker\<close>, whatever its client reference is, with the invocation, the
  invoker and the world as they were. Otherwise, with \<open>dr\<close> and \<open>wr\<close> the invoker and the
  world once the read lock is held: a nil client reference gives \<open>ErrClientClosed\<close>, and
  a client reference with the invoker no longer available gives \<open>ErrDestroyedInvoker\<close>,
  in both cases before any attachment is set or any call is handed to a client. In
  particular every invoker on which \<open>Destroy\<close> has run is rejected with
  \<open>ErrDestroyedInvoker\<close>.
\<close>

theorem Invoke_fast_fail:
  "(\<not> BaseInvoker_IsAvailable (BaseInvoker di) \<longrightarrow>
      Invoke race net pd ctx di w iv = Returns (failed ErrDestroyedInvoker, iv, di, w)) \<and>
   (BaseInvoker_IsAvailable (BaseInvoker di) \<and> race (di, w) = (dr, wr) \<and> client dr = None \<longrightarrow>
      Invoke race net pd ctx di w iv = Returns (failed ErrClientClosed, iv, dr, wr)) \<and>
   (BaseInvoker_IsAvailable (BaseInvoker di) \<and> race (di, w) = (dr, wr) \<and> client dr = Some a \<and>
    \<not> BaseInvoker_IsAvailable (BaseInvoker dr) \<longrightarrow>
      Invoke race net pd ctx di w iv = Returns (failed ErrDestroyedInvoker, iv, dr, wr)) \<and>
   (\<not> quitOnce di \<and> Destroy (di, w) = (di', w') \<longrightarrow>
      Invoke race net pd ctx di' w'' iv = Returns (failed ErrDestroyedInvoker, iv, di', w''))"
proof -
  have destroyed: "\<not> quitOnce di \<and> Destroy (di, w) = (di', w') \<longrightarrow>
      Invoke race net pd ctx di' w'' iv = Returns (failed ErrDestroyedInvoker, iv, di', w'')"
  proof (intro impI, elim conjE)
    assume q: "\<not> quitOnce di" and d: "Destroy (di, w) = (di', w')"
    have "\<not> BaseInvoker_IsAvailable (BaseInvoker di')"
    proof (cases "client di")
      case None
      with q d show ?thesis
        by (auto simp: Destroy_unbound BaseInvoker_IsAvailable_def BaseInvoker_Destroy_def)
    next
      case (Some a')
      with q d show ?thesis
        by (auto simp: Destroy_bound BaseInvoker_IsAvailable_def BaseInvoker_Destroy_def)
    qed
    then show "Invoke race net pd ctx di' w'' iv = Returns (failed ErrDestroyedInvoker, iv, di', w'')"
      by (rule Invoke_unavailable)
  qed
  show ?thesis
    using destroyed Invoke_unavailable [of di race net pd ctx w iv]
      Invoke_available [of di race w dr wr net pd ctx iv]
    by (auto simp: Invoke_locked_def)
qed

lemma effectiveMethodName_plain:
  "\<not> GetParamBool (GetURL di) GENERIC_KEY False \<Longrightarrow>
   effectiveMethodName di iv = Returns (methodName iv)"
  by (simp add: effectiveMethodName_def)

lemma effectiveMethodName_generic:
  "GetParamBool (GetURL di) GENERIC_KEY False \<Longrightarrow> arguments iv = Str s # rest \<Longrightarrow>
   effectiveMethodName di iv = Returns s"
  by (simp add: effectiveMethodName_def)

lemma method_timeout_key: "Join [METHOD_KEYS, m, TIMEOUT_KEY] ''.'' = ''methods.'' @ m @ ''.timeout''"
  by (simp add: METHOD_KEYS_def TIMEOUT_KEY_def)

lemma getTimeout_method:
  assumes "effectiveMethodName di iv = Returns m"
    and "params (GetURL di) (''methods.'' @ m @ ''.timeout'') = Some v" and "v \<noteq> []"
    and "pd v = Some t"
  shows "getTimeout pd di iv = Returns (t, SetAttachments iv TIMEOUT_KEY (Itoa (Milliseconds t)))"
  using assms by (simp add: getTimeout_def method_timeout_key GetParam_def del: Join.simps)

lemma getTimeout_service:
  assumes "effectiveMethodName di iv = Returns m"
    and "params (GetURL di) (''methods.'' @ m @ ''.timeout'') = None \<or>
         (\<exists>v. params (GetURL di) (''methods.'' @ m @ ''.timeout'') = Some v \<and> (v = [] \<or> pd v = None))"
  shows "getTimeout pd di iv =
    Returns (timeout di, SetAttachments iv TIMEOUT_KEY (Itoa (Milliseconds (timeout di))))"
  using assms by (auto simp: getTimeout_def method_timeout_key GetParam_def simp del: Join.simps)

lemma getTimeout_attachment:
  assumes "getTimeout pd di iv = Returns (t, iv')"
  shows "attachments iv' TIMEOUT_KEY = Some (Itoa (Milliseconds t))"
  using assms
  by (auto simp: getTimeout_def SetAttachments_def Let_def split: outcome.splits option.splits)

text \<open>
  C3 (as the code has it). \<open>getTimeout\<close> looks up the parameter \<open>methods.m.timeout\<close>
  where \<open>m\<close> is the method name of the invocation or, when the URL's generic parameter
  is true, the first argument of the invocation, a string. For every invocation with
  such a name: if the parameter is set and parses as a duration, that duration is
  returned and its milliseconds are written in decimal under the attachment \<open>timeout\<close>;
  if it is not set or does not parse, the same is done with the invoker's service-level
  timeout, which \<open>NewDubboInvoker\<close> takes from \<open>GetParamDuration\<close> on the URL's \<open>timeout\<close>
  parameter with the consumer's request timeout as the default. Whenever \<open>getTimeout\<close>
  returns, the attachment \<open>timeout\<close> holds the milliseconds of the duration returned.
  (\<open>time.ParseDuration\<close> rejects the empty string.)
\<close>

theorem getTimeout_cascade:
  assumes "pd [] = None"
  shows
   "(\<not> GetParamBool (GetURL di) GENERIC_KEY False \<longrightarrow>
       effectiveMethodName di iv = Returns (methodName iv)) \<and>
    (GetParamBool (GetURL di) GENERIC_KEY False \<and> arguments iv = Str s # rest \<longrightarrow>
       effectiveMethodName di iv = Returns s) \<and>
    (effectiveMethodName di iv = Returns m \<and>
     params (GetURL di) (''methods.'' @ m @ ''.timeout'') = Some v \<and> pd v = Some t \<longrightarrow>
       getTimeout pd di iv =
         Returns (t, SetAttachments iv ''timeout'' (Itoa (Milliseconds t)))) \<and>
    (effectiveMethodName di iv = Returns m \<and>
     (params (GetURL di) (''methods.'' @ m @ ''.timeout'') = None \<or>
      (\<exists>v. params (GetURL di) (''methods.'' @ m @ ''.timeout'') = Some v \<and> pd v = None)) \<longrightarrow>
       getTimeout pd di iv =
         Returns (timeout di, SetAttachments iv ''timeout'' (Itoa (Milliseconds (timeout di))))) \<and>
    (getTimeout pd di iv = Returns (t', iv') \<longrightarrow>
       attachments iv' ''timeout'' = Some (Itoa (Milliseconds t'))) \<and>
    timeout (NewDubboInvoker gpd rt u cl) = gpd u ''timeout'' rt"
proof -
  have m: "effectiveMethodName di iv = Returns m \<and>
     params (GetURL di) (''methods.'' @ m @ ''.timeout'') = Some v \<and> pd v = Some t \<longrightarrow>
       getTimeout pd di iv = Returns (t, SetAttachments iv ''timeout'' (Itoa (Milliseconds t)))"
  proof (intro impI, elim conjE)
    assume a: "effectiveMethodName di iv = Returns m"
      "params (GetURL di) (''methods.'' @ m @ ''.timeout'') = Some v" "pd v = Some t"
    with assms have "v \<noteq> []" by auto
    with a show "getTimeout pd di iv = Returns (t, SetAttachments iv ''timeout'' (Itoa (Milliseconds t)))"
      using getTimeout_method [of di iv m v pd t] by (simp add: TIMEOUT_KEY_def)
  qed
  have s: "effectiveMethodName di iv = Returns m \<and>
     (params (GetURL di) (''methods.'' @ m @ ''.timeout'') = None \<or>
      (\<exists>v. params (GetURL di) (''methods.'' @ m @ ''.timeout'') = Some v \<and> pd v = None)) \<longrightarrow>
       getTimeout pd di iv =
         Returns (timeout di, SetAttachments iv ''timeout'' (Itoa (Milliseconds (timeout di))))"
    using getTimeout_service [of di iv m pd] by (auto simp: TIMEOUT_KEY_def)
  have a: "getTimeout pd di iv = Returns (t', iv') \<longrightarrow>
       attachments iv' ''timeout'' = Some (Itoa (Milliseconds t'))"
    using getTimeout_attachment [of pd di iv t' iv'] by (simp add: TIMEOUT_KEY_def)
  have n: "timeout (NewDubboInvoker gpd rt u cl) = gpd u ''timeout'' rt"
    by (simp add: NewDubboInvoker_def TIMEOUT_KEY_def)
  show ?thesis
    using m s a n effectiveMethodName_plain [of di iv] effectiveMethodName_generic [of di iv s rest]
    by blast
qed

lemma Itoa_200: "Itoa (Milliseconds 200000000) = ''200''"
  by (simp add: Itoa_def Milliseconds_def digits.simps)

lemma Itoa_5000: "Itoa (Milliseconds 5000000000) = ''5000''"
  by (simp add: Itoa_def Milliseconds_def digits.simps)

theorem getTimeout_cascade_witness:
  "exampleParseDuration [] = None \<and>
   effectiveMethodName exampleInvoker (exampleInvocation ''foo'' Map.empty) = Returns ''foo'' \<and>
   params (GetURL exampleInvoker) (''methods.'' @ ''foo'' @ ''.timeout'') = Some ''200ms'' \<and>
   exampleParseDuration ''200ms'' = Some 200000000 \<and>
   getTimeout exampleParseDuration exampleInvoker (exampleInvocation ''foo'' Map.empty) =
     Returns (200000000, exampleInvocation ''foo'' [''timeout'' \<mapsto> ''200'']) \<and>
   effectiveMethodName exampleInvoker (exampleInvocation ''bar'' Map.empty) = Returns ''bar'' \<and>
   params (GetURL exampleInvoker) (''methods.'' @ ''bar'' @ ''.timeout'') = None \<and>
   timeout exampleInvoker = 5000000000 \<and>
   getTimeout exampleParseDuration exampleInvoker (exampleInvocation ''bar'' Map.empty) =
     Returns (5000000000, exampleInvocation ''bar'' [''timeout'' \<mapsto> ''5000''])"
proof -
  have p: "exampleParseDuration [] = None"
    by (simp add: exampleParseDuration_def)
  have u: "GetURL exampleInvoker = exampleURL"
    by (simp add: GetURL_def exampleInvoker_def NewBaseInvoker_def)
  have g: "\<not> GetParamBool (GetURL exampleInvoker) GENERIC_KEY False"
    by (simp add: u exampleURL_def GetParamBool_def GetParam_def GENERIC_KEY_def ParseBool_def)
  have tm: "timeout exampleInvoker = 5000000000"
    by (simp add: exampleInvoker_def)
  have mn: "\<And>n a. methodName (exampleInvocation n a) = n"
    by (simp add: exampleInvocation_def)
  have sa: "\<And>n a k v. SetAttachments (exampleInvocation n a) k v = exampleInvocation n (a(k \<mapsto> v))"
    by (simp add: exampleInvocation_def SetAttachments_def)
  show ?thesis
    using p g
      getTimeout_cascade [where pd = exampleParseDuration and di = exampleInvoker
        and iv = "exampleInvocation ''foo'' Map.empty" and m = "''foo''" and v = "''200ms''"
        and t = 200000000 and s = "[]" and rest = "[]" and t' = 0
        and iv' = "exampleInvocation [] Map.empty" and gpd = "\<lambda>u k rt. rt" and rt = "0 :: int"
        and u = exampleURL and cl = None]
      getTimeout_cascade [where pd = exampleParseDuration and di = exampleInvoker
        and iv = "exampleInvocation ''bar'' Map.empty" and m = "''bar''" and v = "[]"
        and t = 0 and s = "[]" and rest = "[]" and t' = 0
        and iv' = "exampleInvocation [] Map.empty" and gpd = "\<lambda>u k rt. rt" and rt = "0 :: int"
        and u = exampleURL and cl = None]
    by (simp add: u tm mn sa exampleURL_def exampleParseDuration_def Itoa_200 Itoa_5000)
qed


theorem getTimeout_cascade_counterexample:
  "params (GetURL exampleGenericInvoker) ''methods.foo.timeout'' = Some ''200ms'' \<and>
   exampleParseDuration ''200ms'' = Some 200000000 \<and>
   methodName (exampleInvocation ''foo'' Map.empty) = ''foo'' \<and>
   getTimeout exampleParseDuration exampleGenericInvoker (exampleInvocation ''foo'' Map.empty) =
     Panics IndexOutOfRange \<and>
   getTimeout exampleParseDuration exampleGenericInvoker
       ((exampleInvocation ''foo'' Map.empty)\<lparr>arguments := [Str ''bar'']\<rparr>) =
     Returns (5000000000,
       (exampleInvocation ''foo'' [''timeout'' \<mapsto> ''5000''])\<lparr>arguments := [Str ''bar'']\<rparr>)"
proof -
  have u: "params (GetURL exampleGenericInvoker) =
      [''interface'' \<mapsto> ''UserProvider'', ''methods.foo.timeout'' \<mapsto> ''200ms'',
       ''generic'' \<mapsto> ''true'']"
    by (simp add: exampleGenericInvoker_def exampleInvoker_def NewBaseInvoker_def exampleURL_def
        GetURL_def SetParam_def)
  have g: "GetParamBool (GetURL exampleGenericInvoker) GENERIC_KEY False"
    by (simp add: GetParamBool_def GetParam_def u GENERIC_KEY_def ParseBool_def)
  have t: "timeout exampleGenericInvoker = 5000000000"
    by (simp add: exampleGenericInvoker_def exampleInvoker_def)
  have a: "getTimeout exampleParseDuration exampleGenericInvoker (exampleInvocation ''foo'' Map.empty) =
      Panics IndexOutOfRange"
    using g by (simp add: getTimeout_def effectiveMethodName_def exampleInvocation_def)
  have m: "effectiveMethodName exampleGenericInvoker
      ((exampleInvocation ''foo'' Map.empty)\<lparr>arguments := [Str ''bar'']\<rparr>) = Returns ''bar''"
    using g by (simp add: effectiveMethodName_def)
  have b: "getTimeout exampleParseDuration exampleGenericInvoker
       ((exampleInvocation ''foo'' Map.empty)\<lparr>arguments := [Str ''bar'']\<rparr>) =
     Returns (5000000000,
       (exampleInvocation ''foo'' [''timeout'' \<mapsto> ''5000''])\<lparr>arguments := [Str ''bar'']\<rparr>)"
    using getTimeout_service [OF m, of exampleParseDuration]
    by (simp add: u t Itoa_5000 SetAttachments_def exampleInvocation_def TIMEOUT_KEY_def)
  show ?thesis
    using a b by (simp add: u exampleParseDuration_def exampleInvocation_def)
qed

text \<open>
  A generic URL with an invocation whose first argument is missing or is not a string
  makes \<open>getTimeout\<close> panic, at the index or at the type assertion of line 422.
\<close>

theorem getTimeout_generic_panics:
  "(GetParamBool (GetURL di) GENERIC_KEY False \<and> arguments iv = [] \<longrightarrow>
      getTimeout pd di iv = Panics IndexOutOfRange) \<and>
   (GetParamBool (GetURL di) GENERIC_KEY False \<and> arguments iv = Obj n # rest \<longrightarrow>
      getTimeout pd di iv = Panics InterfaceConversion)"
  by (simp add: getTimeout_def effectiveMethodName_def)

theorem getTimeout_generic_panics_witness:
  "GetParamBool (GetURL exampleGenericInvoker) GENERIC_KEY False \<and>
   arguments (exampleInvocation ''$invoke'' Map.empty) = [] \<and>
   getTimeout exampleParseDuration exampleGenericInvoker (exampleInvocation ''$invoke'' Map.empty) =
     Panics IndexOutOfRange \<and>
   arguments ((exampleInvocation ''$invoke'' Map.empty)\<lparr>arguments := [Obj 1]\<rparr>) = [Obj 1] \<and>
   getTimeout exampleParseDuration exampleGenericInvoker
       ((exampleInvocation ''$invoke'' Map.empty)\<lparr>arguments := [Obj 1]\<rparr>) =
     Panics InterfaceConversion"
proof -
  have g: "GetParamBool (GetURL exampleGenericInvoker) GENERIC_KEY False"
    by (simp add: GetParamBool_def GetParam_def exampleGenericInvoker_def exampleInvoker_def
        NewBaseInvoker_def exampleURL_def GetURL_def SetParam_def GENERIC_KEY_def ParseBool_def)
  show ?thesis
    using g
      getTimeout_generic_panics [where di = exampleGenericInvoker
        and iv = "exampleInvocation ''$invoke'' Map.empty" and n = 1 and rest = "[]"
        and pd = exampleParseDuration]
      getTimeout_generic_panics [where di = exampleGenericInvoker
        and iv = "(exampleInvocation ''$invoke'' Map.empty)\<lparr>arguments := [Obj 1]\<rparr>"
        and n = 1 and rest = "[]" and pd = exampleParseDuration]
    by (simp add: exampleInvocation_def)
qed

theorem Invoke_fast_fail_witness:
  "\<not> quitOnce exampleInvoker \<and>
   Invoke id exampleNet exampleParseDuration None (fst (Destroy (exampleInvoker, exampleWorld)))
      exampleWorld (exampleInvocation ''foo'' Map.empty) =
     Returns (failed ErrDestroyedInvoker, exampleInvocation ''foo'' Map.empty,
       fst (Destroy (exampleInvoker, exampleWorld)), exampleWorld) \<and>
   BaseInvoker_IsAvailable (BaseInvoker exampleInvoker) \<and>
   client (exampleInvoker\<lparr>client := None\<rparr>) = None \<and>
   Invoke id exampleNet exampleParseDuration None (exampleInvoker\<lparr>client := None\<rparr>)
      exampleWorld (exampleInvocation ''foo'' Map.empty) =
     Returns (failed ErrClientClosed, exampleInvocation ''foo'' Map.empty,
       exampleInvoker\<lparr>client := None\<rparr>, exampleWorld) \<and>
   client exampleInvoker = Some 0 \<and>
   \<not> BaseInvoker_IsAvailable (BaseInvoker_Destroy (BaseInvoker exampleInvoker)) \<and>
   Invoke (\<lambda>(di, w). (di\<lparr>BaseInvoker := BaseInvoker_Destroy (BaseInvoker di)\<rparr>, w))
      exampleNet exampleParseDuration None exampleInvoker exampleWorld
      (exampleInvocation ''foo'' Map.empty) =
     Returns (failed ErrDestroyedInvoker, exampleInvocation ''foo'' Map.empty,
       exampleInvoker\<lparr>BaseInvoker := BaseInvoker_Destroy (BaseInvoker exampleInvoker)\<rparr>,
       exampleWorld)"
proof -
  have q: "\<not> quitOnce exampleInvoker" and c: "client exampleInvoker = Some 0"
    and a: "BaseInvoker_IsAvailable (BaseInvoker exampleInvoker)"
    by (simp_all add: exampleInvoker_def BaseInvoker_IsAvailable_def NewBaseInvoker_def)
  have d: "\<not> BaseInvoker_IsAvailable (BaseInvoker_Destroy (BaseInvoker exampleInvoker))"
    by (simp add: BaseInvoker_IsAvailable_def BaseInvoker_Destroy_def)
  show ?thesis
    using q c a d
      Invoke_fast_fail [where di = exampleInvoker and w = exampleWorld
        and di' = "fst (Destroy (exampleInvoker, exampleWorld))"
        and w' = "snd (Destroy (exampleInvoker, exampleWorld))" and w'' = exampleWorld
        and race = id and net = exampleNet and pd = exampleParseDuration and ctx = None
        and iv = "exampleInvocation ''foo'' Map.empty"
        and dr = exampleInvoker and wr = exampleWorld and a = 0]
      Invoke_fast_fail [where di = "exampleInvoker\<lparr>client := None\<rparr>" and w = exampleWorld
        and di' = "exampleInvoker" and w' = "exampleWorld" and w'' = exampleWorld
        and race = id and net = exampleNet and pd = exampleParseDuration and ctx = None
        and iv = "exampleInvocation ''foo'' Map.empty"
        and dr = "exampleInvoker\<lparr>client := None\<rparr>" and wr = exampleWorld and a = 0]
      Invoke_fast_fail [where di = exampleInvoker and w = exampleWorld
        and di' = "exampleInvoker" and w' = "exampleWorld" and w'' = exampleWorld
        and race = "\<lambda>(di, w). (di\<lparr>BaseInvoker := BaseInvoker_Destroy (BaseInvoker di)\<rparr>, w)"
        and net = exampleNet and pd = exampleParseDuration and ctx = None
        and iv = "exampleInvocation ''foo'' Map.empty"
        and dr = "exampleInvoker\<lparr>BaseInvoker := BaseInvoker_Destroy (BaseInvoker exampleInvoker)\<rparr>"
        and wr = exampleWorld and a = 0]
    by simp
qed

subsection \<open>Dispatch\<close>






























end
